theory Spec2Isabelle
  imports Complex_Main
begin

section \<open>DiceIt: the game manager (class GameManager)\<close>

text \<open>
  The class \<^verbatim>\<open>GameManager\<close> keeps one game per Telegram group in the map
  \<^verbatim>\<open>activeGames\<close> and talks to a relational store (Supabase) for wallets, games,
  bets and user statistics. The embedding follows the class method by method.

  \<^item> Stake amounts are JavaScript numbers. An amount is taken to be a finite number
    (what \<^verbatim>\<open>parseFloat\<close> yields on a digit string) and arithmetic on finite numbers is
    exact rational arithmetic; the rounding of IEEE doubles is not modelled.
  \<^item> A number read from an object or from the store may also be \<^verbatim>\<open>NaN\<close>
    (\<^verbatim>\<open>undefined + 1\<close>); \<open>jsnum\<close> carries that case.
  \<^item> Guesses and dice results are integers (\<^verbatim>\<open>parseInt\<close> of a digit string,
    a Telegram dice value, \<^verbatim>\<open>Math.floor\<close> of a random number).
  \<^item> A store query resolves to \<^verbatim>\<open>{ data, error }\<close>; it does not throw. The store is
    part of the state: the wallet table, and the log of the queries sent. Whether the
    n-th query succeeds, and which row id an insert returns, is given by the
    environment \<open>env\<close>. Timestamps and log lines are left out.
  \<^item> The client object comes from \<^verbatim>\<open>lib/supabase.js\<close>, which is not among the sources.
    \<open>rollDice\<close> calls its member \<^verbatim>\<open>sql\<close> as a template tag while it builds the update of
    the user statistics. Whether the client has that member is a field of the
    environment: a client made by \<^verbatim>\<open>createClient\<close> of supabase-js has none, and the call
    then throws a \<^verbatim>\<open>TypeError\<close> that nothing in the class catches.
\<close>

subsection \<open>Numbers\<close>

datatype jsnum = Num rat | NaN

text \<open>\<^verbatim>\<open>x + a\<close> where \<^verbatim>\<open>x\<close> is read from an object: a missing property is
  \<^verbatim>\<open>undefined\<close>, and \<^verbatim>\<open>undefined + a\<close> is \<^verbatim>\<open>NaN\<close>.\<close>

fun to_number :: "jsnum option \<Rightarrow> jsnum" where
  "to_number None = NaN"
| "to_number (Some v) = v"

fun js_add :: "jsnum \<Rightarrow> jsnum \<Rightarrow> jsnum" where
  "js_add (Num a) (Num b) = Num (a + b)"
| "js_add _ _ = NaN"

fun js_sub :: "jsnum \<Rightarrow> jsnum \<Rightarrow> jsnum" where
  "js_sub (Num a) (Num b) = Num (a - b)"
| "js_sub _ _ = NaN"

fun js_mul :: "jsnum \<Rightarrow> jsnum \<Rightarrow> jsnum" where
  "js_mul (Num a) (Num b) = Num (a * b)"
| "js_mul _ _ = NaN"

text \<open>Division by a length. JavaScript gives an infinity or \<^verbatim>\<open>NaN\<close> for a zero
  divisor; the model writes \<open>NaN\<close> for all three (\<open>rollDice\<close> never divides by zero,
  see \<open>calculateWinners_nonempty\<close>).\<close>

fun js_div_length :: "jsnum \<Rightarrow> nat \<Rightarrow> jsnum" where
  "js_div_length (Num a) n = (if n = 0 then NaN else Num (a / of_nat n))"
| "js_div_length NaN n = NaN"

text \<open>\<^verbatim>\<open>x < y\<close>: false as soon as one side is \<^verbatim>\<open>NaN\<close>.\<close>

fun js_less :: "jsnum \<Rightarrow> jsnum \<Rightarrow> bool" where
  "js_less (Num a) (Num b) = (a < b)"
| "js_less _ _ = False"

subsection \<open>Data\<close>

record dice_config =
  min_cfg :: int
  max_cfg :: int
  name_cfg :: string

text \<open>What \<^verbatim>\<open>configs[diceType] || configs['D6']\<close> can evaluate to: one of the four
  configurations, or a member that the object literal inherits from
  \<^verbatim>\<open>Object.prototype\<close> (a function or an object, hence truthy).\<close>

datatype config_value = Config dice_config | Inherited string | Undefined

record player =
  userId :: nat
  username :: string
  amount :: rat
  token :: string
  chosenNumber :: int
  betId :: nat

record player_with_distance = player +
  distance :: int

record gameData =
  gameId :: nat
  diceType :: string
  randomnessMethod :: string
  diceConfig :: config_value
  players :: "player list"
  pot :: "string \<rightharpoonup> jsnum"

record wallet =
  sol_balance :: jsnum
  usdc_balance :: jsnum

text \<open>The queries the manager sends to the store, with the values it passes.\<close>

datatype query =
    InsertGame int string string string
  | SelectWallet nat
  | InsertBet nat nat int rat string
  | UpdateWallet nat string jsnum
  | UpdateGameCounts nat nat jsnum jsnum
  | UpdateGameStatus nat string
  | UpdateBetWon nat jsnum int
  | UpdateBetLost nat int
  | UpdateUserWin nat string jsnum
  | UpdateUserLoss nat string rat
  | FinalizeGame nat int "nat list" jsnum jsnum

record manager =
  activeGames :: "int \<rightharpoonup> gameData"
  gameTimers :: "int \<rightharpoonup> nat"
  wallets :: "nat \<rightharpoonup> wallet"
  queries :: "query list"

record env =
  succeeds :: "nat \<Rightarrow> bool"
  row_id :: "nat \<Rightarrow> nat"
  HOUSE_FEE_PERCENT :: "rat option"
  sql_tag :: bool

text \<open>The error objects \<^verbatim>\<open>{ error: '...' }\<close> the methods return, in the order of the
  source: \<^verbatim>\<open>'A game is already in progress in this group!'\<close>,
  \<^verbatim>\<open>'Failed to create game'\<close>, \<^verbatim>\<open>'No active game in this group! Use /startgame first.'\<close>,
  \<^verbatim>\<open>'Choose a number between min and max'\<close>, \<^verbatim>\<open>'You already joined this game!'\<close>,
  \<^verbatim>\<open>'Wallet not found! Use /start first.'\<close>, \<^verbatim>\<open>'Insufficient token balance. ...'\<close>,
  \<^verbatim>\<open>'Failed to place bet'\<close>, \<^verbatim>\<open>'No active game found'\<close>,
  \<^verbatim>\<open>'No players in game! Game cancelled.'\<close>. The last one, \<open>TypeError\<close>, is no error
  object: the method throws (its promise rejects) and returns nothing.\<close>

datatype error =
    AlreadyActive
  | FailedToCreateGame
  | NoActiveRound
  | InvalidGuess int int
  | AlreadyJoined
  | WalletNotFound
  | InsufficientFunds string jsnum
  | FailedToPlaceBet
  | NoActiveGameFound
  | EmptyRound
  | TypeError

record roll_result =
  diceResult :: int
  winners :: "player_with_distance list"
  payoutSOL :: jsnum
  payoutUSDC :: jsnum
  totalPlayers :: nat
  pot_res :: "string \<rightharpoonup> jsnum"

subsection \<open>The store\<close>

text \<open>Every query is logged; the n-th query succeeds when the environment says so.\<close>

definition send :: "env \<Rightarrow> query \<Rightarrow> manager \<Rightarrow> bool \<times> manager" where
  "send e q s = (succeeds e (length (queries s)), s\<lparr>queries := queries s @ [q]\<rparr>)"

text \<open>\<^verbatim>\<open>insert(...).select().single()\<close>: the new row (its id), or an error.\<close>

definition insert_row :: "env \<Rightarrow> query \<Rightarrow> manager \<Rightarrow> nat option \<times> manager" where
  "insert_row e q s =
     (let n = length (queries s); (good, s1) = send e q s
      in (if good then Some (row_id e n) else None, s1))"

text \<open>\<^verbatim>\<open>from('wallets').select('*').eq('user_id', userId).single()\<close>: the row, or
  \<^verbatim>\<open>data: null\<close>.\<close>

definition select_wallet :: "env \<Rightarrow> nat \<Rightarrow> manager \<Rightarrow> wallet option \<times> manager" where
  "select_wallet e uid s =
     (let (good, s1) = send e (SelectWallet uid) s
      in (if good then wallets s uid else None, s1))"

definition set_balance :: "string \<Rightarrow> jsnum \<Rightarrow> wallet \<Rightarrow> wallet" where
  "set_balance field v w =
     (if field = ''sol_balance'' then w\<lparr>sol_balance := v\<rparr> else w\<lparr>usdc_balance := v\<rparr>)"

text \<open>\<^verbatim>\<open>from('wallets').update({ [updateField]: newBalance }).eq('user_id', userId)\<close>:
  the result is never inspected by the caller, so only the new state is returned.\<close>

definition update_wallet :: "env \<Rightarrow> nat \<Rightarrow> string \<Rightarrow> jsnum \<Rightarrow> manager \<Rightarrow> manager" where
  "update_wallet e uid field v s =
     (let (good, s1) = send e (UpdateWallet uid field v) s
      in if good
         then (case wallets s1 uid of
                 None \<Rightarrow> s1
               | Some w \<Rightarrow> s1\<lparr>wallets := (wallets s1)(uid \<mapsto> set_balance field v w)\<rparr>)
         else s1)"

text \<open>An update of the games, bets or users table: logged, result ignored.\<close>

definition update_row :: "env \<Rightarrow> query \<Rightarrow> manager \<Rightarrow> manager" where
  "update_row e q s = snd (send e q s)"

subsection \<open>The constructor\<close>

definition new_manager :: "(nat \<rightharpoonup> wallet) \<Rightarrow> manager" where
  "new_manager ws =
     \<lparr>activeGames = Map.empty, gameTimers = Map.empty, wallets = ws, queries = []\<rparr>"

subsection \<open>getDiceConfig\<close>

definition configs :: "string \<rightharpoonup> dice_config" where
  "configs =
     [''D6'' \<mapsto> \<lparr>min_cfg = 1, max_cfg = 6, name_cfg = ''6-sided dice''\<rparr>,
      ''D10'' \<mapsto> \<lparr>min_cfg = 1, max_cfg = 10, name_cfg = ''10-sided dice''\<rparr>,
      ''D20'' \<mapsto> \<lparr>min_cfg = 1, max_cfg = 20, name_cfg = ''20-sided dice''\<rparr>,
      ''D100'' \<mapsto> \<lparr>min_cfg = 1, max_cfg = 100, name_cfg = ''100-sided dice''\<rparr>]"

text \<open>The property names of \<^verbatim>\<open>Object.prototype\<close>, which every object literal
  inherits. (The emoji that ends each configuration's name is left out above; the
  name is only displayed.)\<close>

definition object_prototype_keys :: "string list" where
  "object_prototype_keys =
     [''constructor'', ''__defineGetter__'', ''__defineSetter__'', ''hasOwnProperty'',
      ''__lookupGetter__'', ''__lookupSetter__'', ''isPrototypeOf'',
      ''propertyIsEnumerable'', ''toString'', ''valueOf'', ''__proto__'',
      ''toLocaleString'']"

text \<open>\<^verbatim>\<open>configs[key]\<close>: an own property first, then the prototype, else
  \<^verbatim>\<open>undefined\<close>.\<close>

definition configs_get :: "string \<Rightarrow> config_value" where
  "configs_get k =
     (case configs k of
        Some c \<Rightarrow> Config c
      | None \<Rightarrow> if List.member object_prototype_keys k then Inherited k else Undefined)"

text \<open>\<^verbatim>\<open>return configs[diceType] || configs['D6']\<close>: only \<^verbatim>\<open>undefined\<close> is falsy
  among the values of the lookup.\<close>

definition getDiceConfig :: "string \<Rightarrow> config_value" where
  "getDiceConfig dt =
     (case configs_get dt of
        Undefined \<Rightarrow> configs_get ''D6''
      | v \<Rightarrow> v)"

subsection \<open>startGame\<close>

definition startGame ::
  "env \<Rightarrow> int \<Rightarrow> string \<Rightarrow> string \<Rightarrow> string \<Rightarrow> manager \<Rightarrow> (error + nat) \<times> manager" where
  "startGame e groupId groupName dt rm s =
     (if activeGames s groupId \<noteq> None then (Inl AlreadyActive, s)
      else
        let dc = getDiceConfig dt;
            (game, s1) = insert_row e (InsertGame groupId groupName dt rm) s
        in case game of
             None \<Rightarrow> (Inl FailedToCreateGame, s1)
           | Some gid \<Rightarrow>
               (Inr gid,
                s1\<lparr>activeGames := (activeGames s1)(groupId \<mapsto>
                      \<lparr>gameId = gid, diceType = dt, randomnessMethod = rm, diceConfig = dc,
                       players = [], pot = [''SOL'' \<mapsto> Num 0, ''USDC'' \<mapsto> Num 0]\<rparr>)\<rparr>))"

subsection \<open>joinGame\<close>

text \<open>\<^verbatim>\<open>chosenNumber < min || chosenNumber > max\<close> after
  \<^verbatim>\<open>const { min, max } = gameData.diceConfig\<close>. A value that is not one of the four
  configurations has no \<^verbatim>\<open>min\<close> and no \<^verbatim>\<open>max\<close>: both are \<^verbatim>\<open>undefined\<close>
  and both comparisons are false. (A stored configuration is never \<open>Undefined\<close>, see
  \<open>getDiceConfig_defined\<close>.) The result is the pair shown in the error message.\<close>

fun outside_range :: "config_value \<Rightarrow> int \<Rightarrow> (int \<times> int) option" where
  "outside_range (Config c) n =
     (if n < min_cfg c \<or> n > max_cfg c then Some (min_cfg c, max_cfg c) else None)"
| "outside_range _ n = None"

text \<open>\<^verbatim>\<open>token === 'SOL' ? wallet.sol_balance : wallet.usdc_balance\<close> and
  \<^verbatim>\<open>token === 'SOL' ? 'sol_balance' : 'usdc_balance'\<close>.\<close>

definition balance_of :: "string \<Rightarrow> wallet \<Rightarrow> jsnum" where
  "balance_of tok w = (if tok = ''SOL'' then sol_balance w else usdc_balance w)"

definition updateField :: "string \<Rightarrow> string" where
  "updateField tok = (if tok = ''SOL'' then ''sol_balance'' else ''usdc_balance'')"

text \<open>\<^verbatim>\<open>gameData.pot[token] += amount\<close>.\<close>

definition pot_add :: "(string \<rightharpoonup> jsnum) \<Rightarrow> string \<Rightarrow> rat \<Rightarrow> (string \<rightharpoonup> jsnum)" where
  "pot_add p tok a = p(tok \<mapsto> js_add (to_number (p tok)) (Num a))"

definition joinGame ::
  "env \<Rightarrow> int \<Rightarrow> nat \<Rightarrow> string \<Rightarrow> rat \<Rightarrow> string \<Rightarrow> int \<Rightarrow> manager \<Rightarrow> (error + nat) \<times> manager" where
  "joinGame e groupId uid uname amt tok num s =
     (case activeGames s groupId of
        None \<Rightarrow> (Inl NoActiveRound, s)
      | Some gd \<Rightarrow>
         (case outside_range (diceConfig gd) num of
            Some (lo, hi) \<Rightarrow> (Inl (InvalidGuess lo hi), s)
          | None \<Rightarrow>
             if list_ex (\<lambda>p. userId p = uid) (players gd) then (Inl AlreadyJoined, s)
             else
               let (w, s1) = select_wallet e uid s
               in case w of
                    None \<Rightarrow> (Inl WalletNotFound, s1)
                  | Some wal \<Rightarrow>
                     let balance = balance_of tok wal
                     in if js_less balance (Num amt)
                        then (Inl (InsufficientFunds tok balance), s1)
                        else
                          let (bet, s2) =
                                insert_row e (InsertBet (gameId gd) uid num amt tok) s1
                          in case bet of
                               None \<Rightarrow> (Inl FailedToPlaceBet, s2)
                             | Some bid \<Rightarrow>
                                let newBalance = js_sub balance (Num amt);
                                    s3 = update_wallet e uid (updateField tok) newBalance s2;
                                    gd' = gd\<lparr>players := players gd @
                                             [\<lparr>userId = uid, username = uname, amount = amt,
                                               token = tok, chosenNumber = num, betId = bid\<rparr>],
                                            pot := pot_add (pot gd) tok amt\<rparr>;
                                    s4 = s3\<lparr>activeGames := (activeGames s3)(groupId \<mapsto> gd')\<rparr>;
                                    s5 = update_row e
                                           (UpdateGameCounts (gameId gd) (length (players gd'))
                                              (to_number (pot gd' ''SOL''))
                                              (to_number (pot gd' ''USDC''))) s4
                                in (Inr bid, s5)))"

subsection \<open>calculateWinners\<close>

definition with_distance :: "int \<Rightarrow> player \<Rightarrow> player_with_distance" where
  "with_distance r p =
     \<lparr>userId = userId p, username = username p, amount = amount p, token = token p,
      chosenNumber = chosenNumber p, betId = betId p, distance = \<bar>chosenNumber p - r\<bar>\<rparr>"

text \<open>\<^verbatim>\<open>Math.min(...ds)\<close>; \<open>None\<close> is \<^verbatim>\<open>Infinity\<close>, its value on no arguments.\<close>

fun math_min :: "int list \<Rightarrow> int option" where
  "math_min [] = None"
| "math_min (d # ds) = (case math_min ds of None \<Rightarrow> Some d | Some m \<Rightarrow> Some (min d m))"

definition calculateWinners :: "player list \<Rightarrow> int \<Rightarrow> player_with_distance list" where
  "calculateWinners ps r =
     (let playersWithDistance = map (with_distance r) ps;
          minDistance = math_min (map distance playersWithDistance)
      in filter (\<lambda>p. Some (distance p) = minDistance) playersWithDistance)"

subsection \<open>cancelGame\<close>

text \<open>\<^verbatim>\<open>this.activeGames.delete(groupId)\<close> and the removal of the timer entry.\<close>

definition cleanup :: "int \<Rightarrow> manager \<Rightarrow> manager" where
  "cleanup groupId s =
     s\<lparr>activeGames := (activeGames s)(groupId := None),
       gameTimers := (gameTimers s)(groupId := None)\<rparr>"

text \<open>One turn of the refund loop.\<close>

definition refund :: "env \<Rightarrow> player \<Rightarrow> manager \<Rightarrow> manager" where
  "refund e p s =
     (let (w, s1) = select_wallet e (userId p) s
      in case w of
           None \<Rightarrow> s1
         | Some wal \<Rightarrow>
             update_wallet e (userId p) (updateField (token p))
               (js_add (balance_of (token p) wal) (Num (amount p))) s1)"

definition cancelGame :: "env \<Rightarrow> int \<Rightarrow> manager \<Rightarrow> manager" where
  "cancelGame e groupId s =
     (case activeGames s groupId of
        None \<Rightarrow> s
      | Some gd \<Rightarrow>
          let s1 = fold (refund e) (players gd) s;
              s2 = update_row e (UpdateGameStatus (gameId gd) ''cancelled'') s1
          in cleanup groupId s2)"

subsection \<open>rollDice\<close>

text \<open>\<^verbatim>\<open>parseFloat(process.env.HOUSE_FEE_PERCENT || 2) / 100\<close>.\<close>

definition houseFeePercent :: "env \<Rightarrow> rat" where
  "houseFeePercent e = (case HOUSE_FEE_PERCENT e of None \<Rightarrow> 2 | Some v \<Rightarrow> v) / 100"

definition houseFee :: "env \<Rightarrow> gameData \<Rightarrow> string \<Rightarrow> jsnum" where
  "houseFee e gd u = js_mul (to_number (pot gd u)) (Num (houseFeePercent e))"

text \<open>The numerator of a payout: \<^verbatim>\<open>gameData.pot.SOL - houseFeeSOL\<close>.\<close>

definition distributable :: "env \<Rightarrow> gameData \<Rightarrow> string \<Rightarrow> jsnum" where
  "distributable e gd u = js_sub (to_number (pot gd u)) (houseFee e gd u)"

text \<open>A \<^verbatim>\<open>for (const x of xs)\<close> loop whose body may throw: a turn returns whether it
  completed, and the first turn that throws ends the loop with the state reached.\<close>

fun for_each :: "('a \<Rightarrow> manager \<Rightarrow> bool \<times> manager) \<Rightarrow> 'a list \<Rightarrow> manager \<Rightarrow> bool \<times> manager" where
  "for_each body [] s = (True, s)"
| "for_each body (x # xs) s =
     (let (completed, s1) = body x s
      in if completed then for_each body xs s1 else (False, s1))"

text \<open>One turn of the loop over the winners: the update of the bet, the credit of the
  wallet, then the update of the user statistics. The argument of that last update
  holds three calls of the tag \<^verbatim>\<open>supabase.sql\<close>; they are evaluated before the query is
  sent, and without the member \<^verbatim>\<open>sql\<close> the first one throws.\<close>

definition pay_winner ::
  "env \<Rightarrow> jsnum \<Rightarrow> jsnum \<Rightarrow> player_with_distance \<Rightarrow> manager \<Rightarrow> bool \<times> manager" where
  "pay_winner e pSOL pUSDC w s =
     (let payout = (if token w = ''SOL'' then pSOL else pUSDC);
          s1 = update_row e (UpdateBetWon (betId w) payout (distance w)) s;
          (wal, s2) = select_wallet e (userId w) s1;
          s3 = (case wal of
                  None \<Rightarrow> s2
                | Some wl \<Rightarrow>
                    update_wallet e (userId w) (updateField (token w))
                      (js_add (balance_of (token w) wl) payout) s2)
      in if sql_tag e
         then (True, update_row e (UpdateUserWin (userId w) (token w) payout) s3)
         else (False, s3))"

text \<open>One turn of the loop over the losers: the update of the bet, then the update of
  the user statistics, built with two calls of the tag.\<close>

definition settle_loser :: "env \<Rightarrow> int \<Rightarrow> player \<Rightarrow> manager \<Rightarrow> bool \<times> manager" where
  "settle_loser e r p s =
     (let s1 = update_row e (UpdateBetLost (betId p) \<bar>chosenNumber p - r\<bar>) s
      in if sql_tag e
         then (True, update_row e (UpdateUserLoss (userId p) (token p) (amount p)) s1)
         else (False, s1))"

text \<open>An exception in a loop leaves \<open>rollDice\<close> at once: the game row is not finalised
  and the entry of the group stays in \<^verbatim>\<open>activeGames\<close>.\<close>

definition rollDice :: "env \<Rightarrow> int \<Rightarrow> int \<Rightarrow> manager \<Rightarrow> (error + roll_result) \<times> manager" where
  "rollDice e groupId r s =
     (case activeGames s groupId of
        None \<Rightarrow> (Inl NoActiveGameFound, s)
      | Some gd \<Rightarrow>
          if length (players gd) = 0 then (Inl EmptyRound, cancelGame e groupId s)
          else
            let s1 = update_row e (UpdateGameStatus (gameId gd) ''rolling'') s;
                ws = calculateWinners (players gd) r;
                houseFeeSOL = houseFee e gd ''SOL'';
                houseFeeUSDC = houseFee e gd ''USDC'';
                pSOL = js_div_length (distributable e gd ''SOL'') (length ws);
                pUSDC = js_div_length (distributable e gd ''USDC'') (length ws);
                (paid, s2) = for_each (pay_winner e pSOL pUSDC) ws s1
            in if \<not> paid then (Inl TypeError, s2)
               else
                 let losers = filter (\<lambda>p. find (\<lambda>w. userId w = userId p) ws = None)
                                (players gd);
                     (settled, s3) = for_each (settle_loser e r) losers s2
                 in if \<not> settled then (Inl TypeError, s3)
                    else
                      let s4 = update_row e
                                 (FinalizeGame (gameId gd) r (map userId ws)
                                    houseFeeSOL houseFeeUSDC) s3;
                          s5 = cleanup groupId s4
                      in (Inr \<lparr>diceResult = r, winners = ws, payoutSOL = pSOL,
                                payoutUSDC = pUSDC, totalPlayers = length (players gd),
                                pot_res = pot gd\<rparr>, s5))"

subsection \<open>Quantities of the specification\<close>

text \<open>The sum of the stakes placed in unit \<open>u\<close>, and the invariant that the two pots
  the manager creates hold exactly these sums.\<close>

definition stake_sum :: "player list \<Rightarrow> string \<Rightarrow> rat" where
  "stake_sum ps u = sum_list (map amount (filter (\<lambda>p. token p = u) ps))"

definition pot_matches :: "gameData \<Rightarrow> bool" where
  "pot_matches gd =
     (pot gd ''SOL'' = Some (Num (stake_sum (players gd) ''SOL'')) \<and>
      pot gd ''USDC'' = Some (Num (stake_sum (players gd) ''USDC'')))"

subsection \<open>Scenarios\<close>

text \<open>A store that answers every query, and one whose query number \<open>k\<close> fails; both
  with a client that has the tag \<^verbatim>\<open>sql\<close>. Then the same store with a client that has
  not.\<close>

definition default_env :: env where
  "default_env =
     \<lparr>succeeds = (\<lambda>n. True), row_id = (\<lambda>n. 100 + n), HOUSE_FEE_PERCENT = None,
      sql_tag = True\<rparr>"

definition failing_at :: "nat \<Rightarrow> env" where
  "failing_at k =
     \<lparr>succeeds = (\<lambda>n. n \<noteq> k), row_id = (\<lambda>n. 100 + n), HOUSE_FEE_PERCENT = None,
      sql_tag = True\<rparr>"

definition plain_client_env :: env where
  "plain_client_env = default_env\<lparr>sql_tag := False\<rparr>"

definition two_wallets :: "nat \<rightharpoonup> wallet" where
  "two_wallets =
     [1 \<mapsto> \<lparr>sol_balance = Num 500, usdc_balance = Num 500\<rparr>,
      2 \<mapsto> \<lparr>sol_balance = Num 500, usdc_balance = Num 500\<rparr>]"

text \<open>Group 1 after \<^verbatim>\<open>startGame(1, 'G', dt, 'telegram')\<close> on a fresh manager.\<close>

definition opened :: "env \<Rightarrow> string \<Rightarrow> manager" where
  "opened e dt = snd (startGame e 1 ''G'' dt ''telegram'' (new_manager two_wallets))"

text \<open>\<^verbatim>\<open>/dice 100 SOL 3\<close> by user 1, then \<^verbatim>\<open>/dice 100 USDC 5\<close> by user 2.\<close>

definition one_joined :: manager where
  "one_joined =
     snd (joinGame default_env 1 1 ''alice'' 100 ''SOL'' 3 (opened default_env ''D6''))"

definition mixed_round :: manager where
  "mixed_round = snd (joinGame default_env 1 2 ''bob'' 100 ''USDC'' 5 one_joined)"

text \<open>\<^verbatim>\<open>/dice 1 sol 3\<close> by user 1: the command pattern
  \<^verbatim>\<open>/^\/dice ([\d.]+) (SOL|USDC) (\d+)$/i\<close> ignores case and hands the token over as
  typed.\<close>

definition lowercase_round :: manager where
  "lowercase_round =
     snd (joinGame default_env 1 1 ''alice'' 1 ''sol'' 3 (opened default_env ''D6''))"

text \<open>Three players guessing 10, 50 and 90 with a stake of 5 each.\<close>

definition three_players :: "player list" where
  "three_players =
     [\<lparr>userId = 1, username = ''p1'', amount = 5, token = ''SOL'', chosenNumber = 10,
       betId = 11\<rparr>,
      \<lparr>userId = 2, username = ''p2'', amount = 5, token = ''SOL'', chosenNumber = 50,
       betId = 12\<rparr>,
      \<lparr>userId = 3, username = ''p3'', amount = 5, token = ''SOL'', chosenNumber = 90,
       betId = 13\<rparr>]"

section \<open>Properties\<close>

lemmas scenario_defs = default_env_def failing_at_def plain_client_env_def two_wallets_def opened_def
  one_joined_def mixed_round_def lowercase_round_def new_manager_def

lemmas model_defs = startGame_def joinGame_def rollDice_def cancelGame_def cleanup_def
  calculateWinners_def with_distance_def houseFee_def distributable_def houseFeePercent_def
  pay_winner_def settle_loser_def refund_def balance_of_def updateField_def pot_add_def
  getDiceConfig_def configs_get_def configs_def object_prototype_keys_def
  send_def insert_row_def select_wallet_def update_wallet_def update_row_def set_balance_def
  stake_sum_def Let_def

subsection \<open>The store calls leave the registry alone\<close>

lemma send_frame [simp]:
  "activeGames (snd (send e q s)) = activeGames s"
  "gameTimers (snd (send e q s)) = gameTimers s"
  "wallets (snd (send e q s)) = wallets s"
  "queries (snd (send e q s)) = queries s @ [q]"
  by (simp_all add: send_def)

lemma update_row_frame [simp]:
  "activeGames (update_row e q s) = activeGames s"
  "gameTimers (update_row e q s) = gameTimers s"
  "wallets (update_row e q s) = wallets s"
  "queries (update_row e q s) = queries s @ [q]"
  by (simp_all add: update_row_def)

lemma select_wallet_frame [simp]:
  "activeGames (snd (select_wallet e u s)) = activeGames s"
  "gameTimers (snd (select_wallet e u s)) = gameTimers s"
  "wallets (snd (select_wallet e u s)) = wallets s"
  "queries (snd (select_wallet e u s)) = queries s @ [SelectWallet u]"
  by (simp_all add: select_wallet_def send_def)

lemma update_wallet_frame [simp]:
  "activeGames (update_wallet e u f v s) = activeGames s"
  "gameTimers (update_wallet e u f v s) = gameTimers s"
  "queries (update_wallet e u f v s) = queries s @ [UpdateWallet u f v]"
  by (simp_all add: update_wallet_def send_def split: option.splits)

lemma refund_frame [simp]:
  "activeGames (refund e p s) = activeGames s"
  "gameTimers (refund e p s) = gameTimers s"
  by (simp_all add: refund_def split_beta Let_def split: option.splits)

lemma pay_winner_frame [simp]:
  "activeGames (snd (pay_winner e a b w s)) = activeGames s"
  "gameTimers (snd (pay_winner e a b w s)) = gameTimers s"
  "fst (pay_winner e a b w s) = sql_tag e"
  by (simp_all add: pay_winner_def split_beta Let_def split: option.splits)

lemma settle_loser_frame [simp]:
  "activeGames (snd (settle_loser e r p s)) = activeGames s"
  "gameTimers (snd (settle_loser e r p s)) = gameTimers s"
  "wallets (snd (settle_loser e r p s)) = wallets s"
  "fst (settle_loser e r p s) = sql_tag e"
  by (simp_all add: settle_loser_def Let_def)

lemma fold_refund_frame [simp]:
  "activeGames (fold (refund e) ps s) = activeGames s"
  "gameTimers (fold (refund e) ps s) = gameTimers s"
  by (induction ps arbitrary: s) simp_all

text \<open>A loop keeps what each of its turns keeps; it completes when every turn does,
  and throws in its first turn when every turn does.\<close>

lemma for_each_keeps:
  assumes "\<And>x s. f (snd (body x s)) = f s"
  shows "f (snd (for_each body xs s)) = f s"
proof (induction xs arbitrary: s)
  case Nil
  show ?case by simp
next
  case (Cons x xs)
  show ?case
  proof (cases "fst (body x s)")
    case True
    then have "f (snd (for_each body (x # xs) s)) = f (snd (body x s))"
      by (simp add: split_beta Cons.IH)
    with assms show ?thesis by simp
  next
    case False
    then show ?thesis by (simp add: split_beta assms)
  qed
qed

lemma for_each_completes:
  assumes "\<And>x s. fst (body x s)"
  shows "fst (for_each body xs s)"
  by (induction xs arbitrary: s) (simp_all add: split_beta assms)

lemma for_each_throws:
  assumes "\<And>x s. \<not> fst (body x s)" and "xs \<noteq> []"
  shows "\<not> fst (for_each body xs s)"
  using assms(2) by (cases xs) (simp_all add: split_beta assms(1))

lemma for_each_pay_winner_frame [simp]:
  "activeGames (snd (for_each (pay_winner e a b) ws s)) = activeGames s"
  "gameTimers (snd (for_each (pay_winner e a b) ws s)) = gameTimers s"
  by (rule for_each_keeps, simp)+

lemma for_each_settle_loser_frame [simp]:
  "activeGames (snd (for_each (settle_loser e r) ps s)) = activeGames s"
  "gameTimers (snd (for_each (settle_loser e r) ps s)) = gameTimers s"
  "wallets (snd (for_each (settle_loser e r) ps s)) = wallets s"
  by (rule for_each_keeps, simp)+

text \<open>Cancellation removes the entry of its group and no other. So does \<open>rollDice\<close>
  when it returns; when it throws, the registry is as before.\<close>

lemma cancelGame_registry:
  "activeGames (cancelGame e g s) = (activeGames s)(g := None)"
  by (auto simp: cancelGame_def cleanup_def Let_def split: option.splits)

lemma rollDice_registry:
  "activeGames (snd (rollDice e g r s)) =
     (if fst (rollDice e g r s) = Inl TypeError then activeGames s
      else (activeGames s)(g := None))"
  by (auto simp: rollDice_def cancelGame_registry cleanup_def Let_def split_beta
      split: option.splits)


subsection \<open>Winner selection\<close>

lemma math_min_Min: "ds \<noteq> [] \<Longrightarrow> math_min ds = Some (Min (set ds))"
proof (induction ds)
  case Nil
  then show ?case by simp
next
  case (Cons d ds)
  show ?case
  proof (cases "ds = []")
    case True
    then show ?thesis by simp
  next
    case False
    with Cons have "math_min ds = Some (Min (set ds))" by simp
    with False show ?thesis by (simp add: Min_insert)
  qed
qed

text \<open>The filter of \<open>calculateWinners\<close> read on the players themselves.\<close>

lemma calculateWinners_filter:
  "calculateWinners ps r =
     map (with_distance r)
       (filter (\<lambda>p. Some \<bar>chosenNumber p - r\<bar> = math_min (map (\<lambda>q. \<bar>chosenNumber q - r\<bar>) ps)) ps)"
  by (simp add: calculateWinners_def Let_def comp_def filter_map with_distance_def)

text \<open>A round with players has a winner, so \<open>rollDice\<close> never divides by zero.\<close>

lemma calculateWinners_nonempty:
  assumes "ps \<noteq> []"
  shows "calculateWinners ps r \<noteq> []"
proof -
  let ?ds = "map (\<lambda>p. \<bar>chosenNumber p - r\<bar>) ps"
  have "Min (set ?ds) \<in> set ?ds"
    using assms by (intro Min_in) auto
  then obtain p where p: "p \<in> set ps" "\<bar>chosenNumber p - r\<bar> = Min (set ?ds)"
    by auto
  have "math_min ?ds = Some (Min (set ?ds))"
    using assms by (simp add: math_min_Min)
  with p have "p \<in> set (filter (\<lambda>p. Some \<bar>chosenNumber p - r\<bar> = math_min ?ds) ps)"
    by simp
  then show ?thesis
    unfolding calculateWinners_filter by (auto simp: filter_empty_conv)
qed

text \<open>
  \<^bold>\<open>C2.\<close> For a non-empty list of players and any dice result, \<open>calculateWinners\<close>
  returns exactly the players whose distance \<open>\<bar>guess - result\<bar>\<close> is the least distance
  among all players, each with that distance attached, in join order. Nothing but the
  guess decides: every player at the least distance is a winner.
\<close>

theorem calculateWinners_closest:
  "ps \<noteq> [] \<Longrightarrow>
   calculateWinners ps r =
     map (with_distance r)
       (filter (\<lambda>p. \<bar>chosenNumber p - r\<bar> = Min ((\<lambda>q. \<bar>chosenNumber q - r\<bar>) ` set ps)) ps) \<and>
   set (calculateWinners ps r) =
     with_distance r `
       {p \<in> set ps. \<bar>chosenNumber p - r\<bar> = Min ((\<lambda>q. \<bar>chosenNumber q - r\<bar>) ` set ps)}"
proof -
  assume ne: "ps \<noteq> []"
  then have "math_min (map (\<lambda>q. \<bar>chosenNumber q - r\<bar>) ps) =
      Some (Min ((\<lambda>q. \<bar>chosenNumber q - r\<bar>) ` set ps))"
    by (simp add: math_min_Min)
  then have eq: "calculateWinners ps r =
     map (with_distance r)
       (filter (\<lambda>p. \<bar>chosenNumber p - r\<bar> = Min ((\<lambda>q. \<bar>chosenNumber q - r\<bar>) ` set ps)) ps)"
    by (simp add: calculateWinners_filter)
  show ?thesis
    by (rule conjI, rule eq) (simp add: eq)
qed

theorem calculateWinners_closest_witness:
  "three_players \<noteq> [] \<and> map userId (calculateWinners three_players 52) = [2]"
  using calculateWinners_closest [of three_players 52]
  by (simp add: three_players_def with_distance_def)

subsection \<open>Opening a round\<close>

text \<open>A dice type that is neither one of the four configurations nor a property name
  of \<^verbatim>\<open>Object.prototype\<close> gets the six-sided dice.\<close>

lemma getDiceConfig_fallback:
  assumes "dt \<notin> {''D6'', ''D10'', ''D20'', ''D100''}" and "dt \<notin> set object_prototype_keys"
  shows "getDiceConfig dt = Config \<lparr>min_cfg = 1, max_cfg = 6, name_cfg = ''6-sided dice''\<rparr>"
proof -
  from assms(1) have "configs dt = None"
    by (simp add: configs_def)
  with assms(2) have "configs_get dt = Undefined"
    by (simp add: configs_get_def)
  then show ?thesis
    by (simp add: getDiceConfig_def configs_get_def configs_def)
qed

lemma getDiceConfig_defined: "getDiceConfig dt \<noteq> Undefined"
  by (auto simp: getDiceConfig_def configs_get_def configs_def
      split: config_value.splits option.splits if_splits)

text \<open>
  \<^bold>\<open>C10.\<close> The claim: every dice type other than D6, D10, D20 and D100 falls back to
  the configuration \<open>{min: 1, max: 6}\<close>. The lookup \<^verbatim>\<open>configs[diceType]\<close> also finds the
  members an object literal inherits: for the dice type \<^verbatim>\<open>constructor\<close> it returns the
  inherited member, which is truthy, so no fallback happens. The round is created with
  that value as its configuration; it has no \<^verbatim>\<open>min\<close> and no \<^verbatim>\<open>max\<close>, and a guess of
  1000 is accepted.
\<close>

theorem getDiceConfig_inherited_key:
  "getDiceConfig ''constructor'' = Inherited ''constructor'' \<and>
   map_option diceConfig (activeGames (opened default_env ''constructor'') 1) =
     Some (Inherited ''constructor'') \<and>
   fst (joinGame default_env 1 1 ''alice'' 100 ''SOL'' 1000 (opened default_env ''constructor'')) =
     Inr 102"
  by (simp add: scenario_defs model_defs)

text \<open>A store that rejects the insert of the game row makes \<open>startGame\<close> fail with
  \<^verbatim>\<open>'Failed to create game'\<close>, also for a group whose round was torn down.\<close>

lemma startGame_store_error:
  "activeGames (snd (rollDice (failing_at 2) 1 4 (opened (failing_at 2) ''D6''))) 1 = None \<and>
   fst (startGame (failing_at 2) 1 ''G'' ''D6'' ''telegram''
          (snd (rollDice (failing_at 2) 1 4 (opened (failing_at 2) ''D6'')))) =
     Inl FailedToCreateGame"
  by (simp add: scenario_defs model_defs)



subsection \<open>Joining\<close>

text \<open>
  \<^bold>\<open>C6.\<close> A join that fails validation has no side effect: \<open>joinGame\<close> returns the state
  it was given, so the pot, the players, the wallet table and the log of queries
  (no wallet read, no bet insert, no debit) are unchanged. This holds for a group with
  no round (\<open>NoActiveRound\<close>), for a guess below the minimum or above the maximum of
  the round's dice (\<open>InvalidGuess\<close>), and for an account that is already a player
  (\<open>AlreadyJoined\<close>); conversely, whenever one of the three errors is returned the
  state is unchanged.
\<close>

theorem joinGame_validation:
  "(activeGames s g = None \<longrightarrow> joinGame e g u n a t c s = (Inl NoActiveRound, s)) \<and>
   (\<forall>gd cfg. activeGames s g = Some gd \<and> diceConfig gd = Config cfg \<and>
       (c < min_cfg cfg \<or> c > max_cfg cfg) \<longrightarrow>
       joinGame e g u n a t c s = (Inl (InvalidGuess (min_cfg cfg) (max_cfg cfg)), s)) \<and>
   (\<forall>gd. activeGames s g = Some gd \<and> outside_range (diceConfig gd) c = None \<and>
       list_ex (\<lambda>p. userId p = u) (players gd) \<longrightarrow>
       joinGame e g u n a t c s = (Inl AlreadyJoined, s)) \<and>
   (fst (joinGame e g u n a t c s) \<in>
        {Inl NoActiveRound, Inl AlreadyJoined} \<union> range (\<lambda>(lo, hi). Inl (InvalidGuess lo hi)) \<longrightarrow>
      snd (joinGame e g u n a t c s) = s)"
  by (auto simp: joinGame_def Let_def split_beta split: option.splits if_splits)

theorem joinGame_validation_witness:
  "joinGame default_env 2 1 ''alice'' 100 ''SOL'' 3 one_joined = (Inl NoActiveRound, one_joined) \<and>
   joinGame default_env 1 2 ''bob'' 100 ''SOL'' 7 one_joined = (Inl (InvalidGuess 1 6), one_joined) \<and>
   joinGame default_env 1 1 ''alice'' 5 ''USDC'' 2 one_joined = (Inl AlreadyJoined, one_joined)"
proof -
  obtain gd where gd: "activeGames one_joined 1 = Some gd"
      "diceConfig gd = Config \<lparr>min_cfg = 1, max_cfg = 6, name_cfg = ''6-sided dice''\<rparr>"
      "list_ex (\<lambda>p. userId p = 1) (players gd)"
    by (simp add: scenario_defs model_defs)
  have none: "activeGames one_joined 2 = None"
    by (simp add: scenario_defs model_defs)
  have "joinGame default_env 2 1 ''alice'' 100 ''SOL'' 3 one_joined = (Inl NoActiveRound, one_joined)"
    using none joinGame_validation [of one_joined 2 default_env 1 "''alice''" 100 "''SOL''" 3]
    by simp
  moreover
  have "joinGame default_env 1 2 ''bob'' 100 ''SOL'' 7 one_joined =
      (Inl (InvalidGuess 1 6), one_joined)"
    using gd joinGame_validation [of one_joined 1 default_env 2 "''bob''" 100 "''SOL''" 7]
    by force
  moreover
  have "joinGame default_env 1 1 ''alice'' 5 ''USDC'' 2 one_joined = (Inl AlreadyJoined, one_joined)"
    using gd joinGame_validation [of one_joined 1 default_env 1 "''alice''" 5 "''USDC''" 2]
    by simp
  ultimately show ?thesis by simp
qed

text \<open>
  \<^bold>\<open>C3\<close>, as stated, at a guess outside the range: user 1 is a player of the round of
  group 1 (six-sided dice) and joins again with the guess 7. The range is checked
  before the list of players, and the error is \<open>InvalidGuess\<close>, not \<open>AlreadyJoined\<close>.
\<close>

theorem second_join_out_of_range:
  "map_option (map userId \<circ> players) (activeGames one_joined 1) = Some [1] \<and>
   fst (joinGame default_env 1 1 ''alice'' 100 ''SOL'' 7 one_joined) = Inl (InvalidGuess 1 6) \<and>
   fst (joinGame default_env 1 1 ''alice'' 100 ''SOL'' 7 one_joined) \<noteq> Inl AlreadyJoined"
  by (simp add: scenario_defs model_defs)

text \<open>
  \<^bold>\<open>C3\<close>, amended. A join by an account that is already a player of the round always
  fails and leaves the state unchanged, whatever the amount and the unit: with
  \<open>InvalidGuess\<close> when the guess is outside the range of the round's dice, and with
  \<open>AlreadyJoined\<close> otherwise.
\<close>

theorem second_join_rejected:
  "activeGames s g = Some gd \<Longrightarrow> list_ex (\<lambda>p. userId p = u) (players gd) \<Longrightarrow>
   joinGame e g u n a t c s =
     (Inl (case outside_range (diceConfig gd) c of
             Some (lo, hi) \<Rightarrow> InvalidGuess lo hi
           | None \<Rightarrow> AlreadyJoined), s)"
  by (auto simp: joinGame_def split: option.splits)

theorem second_join_rejected_witness:
  "activeGames one_joined 1 \<noteq> None \<and>
   joinGame default_env 1 1 ''alice'' 7 ''USDC'' 4 one_joined = (Inl AlreadyJoined, one_joined) \<and>
   joinGame default_env 1 1 ''alice'' 7 ''USDC'' 7 one_joined = (Inl (InvalidGuess 1 6), one_joined)"
proof -
  obtain gd where gd: "activeGames one_joined 1 = Some gd"
      "diceConfig gd = Config \<lparr>min_cfg = 1, max_cfg = 6, name_cfg = ''6-sided dice''\<rparr>"
      "list_ex (\<lambda>p. userId p = 1) (players gd)"
    by (simp add: scenario_defs model_defs)
  from second_join_rejected [OF gd(1) gd(3), of default_env "''alice''" 7 "''USDC''" 4]
    second_join_rejected [OF gd(1) gd(3), of default_env "''alice''" 7 "''USDC''" 7]
  show ?thesis using gd by simp
qed

subsection \<open>The pot\<close>

lemma stake_sum_append:
  "stake_sum (ps @ [p]) u = stake_sum ps u + (if token p = u then amount p else 0)"
  by (simp add: stake_sum_def)

text \<open>A new round has empty pots, and a successful join keeps the pots of
  \<^verbatim>\<open>SOL\<close> and \<^verbatim>\<open>USDC\<close> equal to the stakes placed in exactly these two units.\<close>

lemma startGame_pot_matches:
  assumes "startGame e g gn dt rm s = (Inr gid, s')"
  shows "\<exists>gd. activeGames s' g = Some gd \<and> players gd = [] \<and> pot_matches gd"
  using assms
  by (auto simp: startGame_def insert_row_def send_def Let_def pot_matches_def stake_sum_def
      split: if_splits)

lemma joinGame_pot_matches:
  assumes "activeGames s g = Some gd" and "pot_matches gd"
    and "joinGame e g u n a t c s = (Inr b, s')"
  shows "\<exists>gd'. activeGames s' g = Some gd' \<and> pot_matches gd' \<and>
           players gd' = players gd @
             [\<lparr>userId = u, username = n, amount = a, token = t, chosenNumber = c, betId = b\<rparr>]"
  using assms
  by (auto simp: joinGame_def Let_def split_beta pot_matches_def pot_add_def stake_sum_append
      split: option.splits if_splits)

text \<open>
  \<^bold>\<open>C4.\<close> The claim: after successful joins, the pot of every unit is the sum of the
  stakes placed in that unit. The command \<^verbatim>\<open>/dice 1 sol 3\<close> reaches \<open>joinGame\<close> with the
  token \<^verbatim>\<open>sol\<close>. The join succeeds; the stake is taken from the USDC balance (every
  token other than \<^verbatim>\<open>SOL\<close> is read as USDC there), while
  \<^verbatim>\<open>gameData.pot[token] += amount\<close> creates the entry \<^verbatim>\<open>sol\<close> with the value
  \<^verbatim>\<open>undefined + 1\<close>, that is \<^verbatim>\<open>NaN\<close>. The stakes placed in \<^verbatim>\<open>sol\<close> sum to 1, and the
  pots of \<^verbatim>\<open>SOL\<close> and \<^verbatim>\<open>USDC\<close> stay 0.
\<close>

theorem joinGame_lowercase_token_pot:
  "fst (joinGame default_env 1 1 ''alice'' 1 ''sol'' 3 (opened default_env ''D6'')) = Inr 102 \<and>
   map_option (\<lambda>gd. (pot gd ''sol'', pot gd ''SOL'', pot gd ''USDC''))
     (activeGames lowercase_round 1) = Some (Some NaN, Some (Num 0), Some (Num 0)) \<and>
   map_option (\<lambda>gd. stake_sum (players gd) ''sol'') (activeGames lowercase_round 1) = Some 1 \<and>
   wallets lowercase_round 1 = Some \<lparr>sol_balance = Num 500, usdc_balance = Num 499\<rparr>"
  by (simp add: scenario_defs model_defs)

text \<open>
  \<^bold>\<open>C9.\<close> The claim: a join whose debit fails is aborted, with no player added and the
  pot unchanged. The result of the wallet update is never read. Here the fourth query
  of the store, the debit of 100 SOL, fails: the balance stays 500, and \<open>joinGame\<close>
  still returns the bet, adds the player and raises the pot to 100.
\<close>

theorem joinGame_debit_failure_ignored:
  "\<not> succeeds (failing_at 3) 3 \<and>
   queries (snd (joinGame (failing_at 3) 1 1 ''alice'' 100 ''SOL'' 3
                   (opened (failing_at 3) ''D6''))) ! 3 =
     UpdateWallet 1 ''sol_balance'' (Num 400) \<and>
   fst (joinGame (failing_at 3) 1 1 ''alice'' 100 ''SOL'' 3 (opened (failing_at 3) ''D6'')) =
     Inr 102 \<and>
   wallets (snd (joinGame (failing_at 3) 1 1 ''alice'' 100 ''SOL'' 3
                   (opened (failing_at 3) ''D6''))) 1 =
     Some \<lparr>sol_balance = Num 500, usdc_balance = Num 500\<rparr> \<and>
   map_option (\<lambda>gd. (map userId (players gd), pot gd ''SOL''))
     (activeGames (snd (joinGame (failing_at 3) 1 1 ''alice'' 100 ''SOL'' 3
                          (opened (failing_at 3) ''D6''))) 1) =
     Some ([1], Some (Num 100))"
  by (simp add: scenario_defs model_defs)

subsection \<open>Settlement\<close>

text \<open>What \<open>rollDice\<close> returns for a round with players when the client has the tag
  \<^verbatim>\<open>sql\<close>: both payouts divide by the number of all winners.\<close>

lemma rollDice_result:
  assumes "activeGames s g = Some gd" and "players gd \<noteq> []" and "sql_tag e"
  shows "fst (rollDice e g r s) =
     Inr \<lparr>diceResult = r, winners = calculateWinners (players gd) r,
          payoutSOL = js_div_length (distributable e gd ''SOL'')
                        (length (calculateWinners (players gd) r)),
          payoutUSDC = js_div_length (distributable e gd ''USDC'')
                         (length (calculateWinners (players gd) r)),
          totalPlayers = length (players gd), pot_res = pot gd\<rparr>"
proof -
  have "fst (for_each (pay_winner e a b) ws t)" for a b ws t
    by (rule for_each_completes) (simp add: assms(3))
  moreover have "fst (for_each (settle_loser e r) ps t)" for ps t
    by (rule for_each_completes) (simp add: assms(3))
  ultimately show ?thesis
    using assms(1,2) by (simp add: rollDice_def Let_def split_beta)
qed

text \<open>Without the tag, the settlement of a round with players throws, and the entry
  of the group stays in the registry.\<close>

lemma rollDice_throws:
  assumes "activeGames s g = Some gd" and "players gd \<noteq> []" and "\<not> sql_tag e"
  shows "fst (rollDice e g r s) = Inl TypeError"
    and "activeGames (snd (rollDice e g r s)) = activeGames s"
proof -
  have "\<not> fst (for_each (pay_winner e a b) (calculateWinners (players gd) r) t)" for a b t
    by (rule for_each_throws) (simp_all add: assms(3) calculateWinners_nonempty [OF assms(2)])
  then show thrown: "fst (rollDice e g r s) = Inl TypeError"
    using assms(1,2) by (simp add: rollDice_def Let_def split_beta)
  then show "activeGames (snd (rollDice e g r s)) = activeGames s"
    by (simp add: rollDice_registry)
qed

text \<open>The round of users 1 and 2 settled through a client without the tag: user 1 is
  credited 49 SOL as with the tag, then the call throws; user 2 is not paid and group 1
  keeps its round, so that no new round can be opened.\<close>

lemma rollDice_plain_client:
  "fst (rollDice plain_client_env 1 4 mixed_round) = Inl TypeError \<and>
   wallets (snd (rollDice plain_client_env 1 4 mixed_round)) 1 =
     Some \<lparr>sol_balance = Num 449, usdc_balance = Num 500\<rparr> \<and>
   wallets (snd (rollDice plain_client_env 1 4 mixed_round)) 2 =
     Some \<lparr>sol_balance = Num 500, usdc_balance = Num 400\<rparr> \<and>
   activeGames (snd (rollDice plain_client_env 1 4 mixed_round)) 1 = activeGames mixed_round 1 \<and>
   fst (startGame plain_client_env 1 ''G'' ''D6'' ''telegram''
          (snd (rollDice plain_client_env 1 4 mixed_round))) = Inl AlreadyActive"
  by (simp add: scenario_defs model_defs)

text \<open>Fee and distributable amount of a unit add up to its pot.\<close>

lemma fee_plus_distributable:
  "pot gd u = Some (Num x) \<Longrightarrow> js_add (houseFee e gd u) (distributable e gd u) = Num x"
  by (simp add: houseFee_def distributable_def)

lemma houseFee_default:
  "HOUSE_FEE_PERCENT e = None \<Longrightarrow> pot gd u = Some (Num x) \<Longrightarrow> houseFee e gd u = Num (x / 50)"
  by (simp add: houseFee_def houseFeePercent_def)

text \<open>When every stake is placed in \<^verbatim>\<open>SOL\<close> or \<^verbatim>\<open>USDC\<close> and the pots hold the stakes,
  the stakes of the round are its fees and distributable amounts.\<close>

lemma stakes_split:
  "list_all (\<lambda>p. token p = ''SOL'' \<or> token p = ''USDC'') ps \<Longrightarrow>
   sum_list (map amount ps) = stake_sum ps ''SOL'' + stake_sum ps ''USDC''"
  by (induction ps) (auto simp: stake_sum_def)

lemma settled_balance:
  assumes "pot_matches gd"
    and "list_all (\<lambda>p. token p = ''SOL'' \<or> token p = ''USDC'') (players gd)"
  shows "js_add (js_add (houseFee e gd ''SOL'') (distributable e gd ''SOL''))
           (js_add (houseFee e gd ''USDC'') (distributable e gd ''USDC'')) =
         Num (sum_list (map amount (players gd)))"
proof -
  from assms(1) have
    "js_add (houseFee e gd ''SOL'') (distributable e gd ''SOL'') =
       Num (stake_sum (players gd) ''SOL'')"
    "js_add (houseFee e gd ''USDC'') (distributable e gd ''USDC'') =
       Num (stake_sum (players gd) ''USDC'')"
    by (simp_all add: pot_matches_def fee_plus_distributable)
  with stakes_split [OF assms(2)] show ?thesis by simp
qed

text \<open>When all winners staked \<^verbatim>\<open>SOL\<close>, the divisor of the payout is the number of
  winners who staked \<^verbatim>\<open>SOL\<close>.\<close>

lemma single_unit_divisor:
  "list_all (\<lambda>w. token w = u) ws \<Longrightarrow> length (filter (\<lambda>w. token w = u) ws) = length ws"
  by (induction ws) auto

text \<open>Two players stake 10 SOL on 3 and on 5; the dice shows 4. Both are at distance 1;
  the pot of 20 less the fee of 2 percent is 19.6, and each is paid 9.8.\<close>

lemma tie_same_unit:
  "map_sum id payoutSOL
     (fst (rollDice default_env 1 4
        (snd (joinGame default_env 1 2 ''bob'' 10 ''SOL'' 5
           (snd (joinGame default_env 1 1 ''alice'' 10 ''SOL'' 3 (opened default_env ''D6''))))))) =
   Inr (Num (98 / 10))"
  by (simp add: scenario_defs model_defs)

text \<open>
  \<^bold>\<open>C1.\<close> The claim: a winner staking unit \<open>u\<close> is paid the distributable amount of \<open>u\<close>
  divided by the number of winners staking \<open>u\<close>. Users 1 and 2 stake 100 SOL on 3 and
  100 USDC on 5, and the dice shows 4: both win. The distributable amount of SOL is
  98 and one winner staked SOL, so the claim gives 98; \<open>rollDice\<close> divides by the
  number of all winners and credits 49 (the balance goes from 400 to 449).
\<close>

theorem rollDice_mixed_units_payout:
  "map_option players (activeGames mixed_round 1) =
     Some [\<lparr>userId = 1, username = ''alice'', amount = 100, token = ''SOL'',
             chosenNumber = 3, betId = 102\<rparr>,
           \<lparr>userId = 2, username = ''bob'', amount = 100, token = ''USDC'',
             chosenNumber = 5, betId = 106\<rparr>] \<and>
   map_sum id (map userId \<circ> winners) (fst (rollDice default_env 1 4 mixed_round)) = Inr [1, 2] \<and>
   map_sum id payoutSOL (fst (rollDice default_env 1 4 mixed_round)) = Inr (Num 49) \<and>
   map_sum id payoutUSDC (fst (rollDice default_env 1 4 mixed_round)) = Inr (Num 49) \<and>
   map_option (\<lambda>gd. js_div_length (distributable default_env gd ''SOL'')
        (length (filter (\<lambda>w. token w = ''SOL'') (calculateWinners (players gd) 4))))
     (activeGames mixed_round 1) = Some (Num 98) \<and>
   wallets mixed_round 1 = Some \<lparr>sol_balance = Num 400, usdc_balance = Num 500\<rparr> \<and>
   wallets (snd (rollDice default_env 1 4 mixed_round)) 1 =
     Some \<lparr>sol_balance = Num 449, usdc_balance = Num 500\<rparr>"
  by (simp add: scenario_defs model_defs)

text \<open>
  \<^bold>\<open>C7.\<close> The claim: the stakes debited in a round equal fee plus distributable amount,
  summed over the units. In the round joined with \<^verbatim>\<open>/dice 1 sol 3\<close> the stakes sum to
  1, taken from the USDC balance of user 1; the fees and distributable amounts of SOL
  and USDC are all 0. User 1 wins alone and is paid 0: the balance stays 499.
\<close>

theorem rollDice_lowercase_token_balance:
  "map_option (\<lambda>gd. sum_list (map amount (players gd))) (activeGames lowercase_round 1) =
     Some 1 \<and>
   map_option (\<lambda>gd. [houseFee default_env gd ''SOL'', distributable default_env gd ''SOL'',
                      houseFee default_env gd ''USDC'', distributable default_env gd ''USDC''])
     (activeGames lowercase_round 1) = Some [Num 0, Num 0, Num 0, Num 0] \<and>
   map_sum id (map userId \<circ> winners) (fst (rollDice default_env 1 3 lowercase_round)) = Inr [1] \<and>
   map_sum id payoutUSDC (fst (rollDice default_env 1 3 lowercase_round)) = Inr (Num 0) \<and>
   wallets (opened default_env ''D6'') 1 =
     Some \<lparr>sol_balance = Num 500, usdc_balance = Num 500\<rparr> \<and>
   wallets (snd (rollDice default_env 1 3 lowercase_round)) 1 =
     Some \<lparr>sol_balance = Num 500, usdc_balance = Num 499\<rparr>"
  by (simp add: scenario_defs model_defs)

text \<open>
  \<^bold>\<open>C8.\<close> Rolling the dice for a round without players cancels it: \<open>rollDice\<close> returns
  the error \<^verbatim>\<open>'No players in game! Game cancelled.'\<close>, the only query sent sets the
  status of the game row to \<^verbatim>\<open>cancelled\<close> (no wallet is read or written), the wallet
  table is unchanged, and the entries of the group in the registry and in the timer
  table are removed.
\<close>

theorem rollDice_empty_round:
  "activeGames s g = Some gd \<Longrightarrow> players gd = [] \<Longrightarrow>
   rollDice e g r s =
     (Inl EmptyRound,
      s\<lparr>activeGames := (activeGames s)(g := None),
        gameTimers := (gameTimers s)(g := None),
        queries := queries s @ [UpdateGameStatus (gameId gd) ''cancelled'']\<rparr>)"
  by (simp add: rollDice_def cancelGame_def cleanup_def update_row_def send_def)

theorem rollDice_empty_round_witness:
  "map_option players (activeGames (opened default_env ''D6'') 1) = Some [] \<and>
   fst (rollDice default_env 1 4 (opened default_env ''D6'')) = Inl EmptyRound \<and>
   queries (snd (rollDice default_env 1 4 (opened default_env ''D6''))) =
     [InsertGame 1 ''G'' ''D6'' ''telegram'', UpdateGameStatus 100 ''cancelled''] \<and>
   wallets (snd (rollDice default_env 1 4 (opened default_env ''D6''))) = two_wallets \<and>
   activeGames (snd (rollDice default_env 1 4 (opened default_env ''D6''))) 1 = None"
proof -
  obtain gd where gd: "activeGames (opened default_env ''D6'') 1 = Some gd" "players gd = []"
      "gameId gd = 100"
    by (simp add: scenario_defs model_defs)
  have start: "queries (opened default_env ''D6'') = [InsertGame 1 ''G'' ''D6'' ''telegram'']"
      "wallets (opened default_env ''D6'') = two_wallets"
    by (simp_all add: scenario_defs model_defs)
  show ?thesis
    using gd start rollDice_empty_round [OF gd(1) gd(2), of default_env 4]
    by simp
qed

end
